theory Spec2Isabelle
  imports Complex_Main
begin

section \<open>trivy\_to\_nist.py: data model\<close>

text \<open>
  A shallow embedding of \<^verbatim>\<open>src/trivy_to_nist.py\<close>: the corpus loader \<^verbatim>\<open>merge_jsons\<close>,
  the normalizer \<^verbatim>\<open>extract_findings\<close> and the assembler \<^verbatim>\<open>export_mitre_saf_hdf\<close>,
  with the two module-level tables \<^verbatim>\<open>NIST_MAPPING\<close> and \<^verbatim>\<open>SEVERITY_ORDER\<close>.

  Conventions of the embedding.
  \<^item> A Python \<^verbatim>\<open>str\<close> is the \<open>string\<close> of its UTF-8 bytes; concatenation and equality
    are those of Python. The arrow of the code description (U+2192) is three bytes.
  \<^item> A scan document is a Python \<^verbatim>\<open>dict\<close> read from JSON. Each dict the code looks into
    is a record whose fields are the keys the code reads, a field being \<open>None\<close> when the
    key is absent: \<^verbatim>\<open>d.get(k, default)\<close> is a \<open>case\<close> with the default, \<^verbatim>\<open>d[k]\<close> raises
    \<open>KeyError k\<close> on \<open>None\<close>. Keys that the code never reads are left out. Present values
    have the types of the scanner's schema (strings, lists of records); a document that
    puts a value of another JSON type there is outside the embedding.
  \<^item> The top-level items of a document are a map \<open>other\<close> from key to an uninterpreted
    value of type \<open>'v\<close>; the item of key \<^verbatim>\<open>Results\<close> is the typed field \<open>Results\<close>, and
    the loader passes over whatever \<open>other\<close> holds under that key.
  \<^item> An exception is a value \<open>Inl e\<close> of \<open>error + 'a\<close>; \<open>Inr\<close> is a normal return.
\<close>

datatype error =
    KeyError string
  | IndexError
  | FileNotFoundError
  | JSONDecodeError
  | OtherError string  \<comment> \<open>any other exception class, e.g. PermissionError\<close>

text \<open>What \<^verbatim>\<open>open(path)\<close> followed by \<^verbatim>\<open>json.load\<close> does for one path.\<close>

datatype 'a load = Raises error | Loaded 'a

record layer =
  DiffID :: "string option"

record vuln =
  VulnerabilityID :: "string option"
  v_Title :: "string option"
  v_Severity :: "string option"
  PkgName :: "string option"
  InstalledVersion :: "string option"
  FixedVersion :: "string option"
  v_Description :: "string option"
  v_References :: "string list option"
  PublishedDate :: "string option"
  Layer :: "layer option"

record misconfig =
  ID :: "string option"
  m_Title :: "string option"
  m_Severity :: "string option"
  Message :: "string option"
  m_References :: "string list option"

record secret =
  RuleID :: "string option"
  s_Title :: "string option"
  s_Severity :: "string option"
  Match :: "string option"

record result =
  Vulnerabilities :: "vuln list option"
  Misconfigurations :: "misconfig list option"
  Secrets :: "secret list option"

record 'v document =
  Results :: "result list option"
  other :: "string \<rightharpoonup> 'v"

text \<open>
  A finding is the dict literal that \<^verbatim>\<open>extract_findings\<close> appends. The keys
  \<^verbatim>\<open>type\<close>, \<^verbatim>\<open>id\<close>, \<^verbatim>\<open>title\<close>, \<^verbatim>\<open>severity\<close> and \<^verbatim>\<open>description\<close> are in all three
  literals; the others only in some, so they are optional here.
\<close>

record finding =
  f_type :: string
  f_id :: string
  f_title :: string
  f_severity :: string
  f_package :: "string option"
  f_installed :: "string option"
  f_fixed :: "string option"
  f_description :: string
  f_references :: "string list option"
  f_published :: "string option"
  f_layer :: "string option"

section \<open>The module-level tables\<close>

record control_def =
  name :: string
  description :: string
  trivy_keywords :: "string list"
  severity_threshold :: string

definition NIST_MAPPING :: "(string \<times> control_def) list" where
  "NIST_MAPPING =
    [(''SC-28'', \<lparr>name = ''Protection of Information at Rest'',
        description = ''Encrypt sensitive data at rest'',
        trivy_keywords = [''crypto'', ''ssl'', ''tls'', ''cipher'', ''insecure''],
        severity_threshold = ''HIGH''\<rparr>),
     (''SI-2'', \<lparr>name = ''Flaw Remediation'',
        description = ''Identify, report, and correct system flaws'',
        trivy_keywords = [],
        severity_threshold = ''CRITICAL''\<rparr>),
     (''SI-7'', \<lparr>name = ''Software, Firmware, and Information Integrity'',
        description = ''Employ integrity verification tools'',
        trivy_keywords = [''signature'', ''hash'', ''verification'', ''unsigned''],
        severity_threshold = ''HIGH''\<rparr>),
     (''CM-6'', \<lparr>name = ''Configuration Settings'',
        description = ''Establish and document configuration settings'',
        trivy_keywords = [''config'', ''misconfiguration'', ''exposure'', ''debug''],
        severity_threshold = ''MEDIUM''\<rparr>),
     (''IA-5'', \<lparr>name = ''Authenticator Management'',
        description = ''Manage system authenticators'',
        trivy_keywords = [''password'', ''credential'', ''secret'', ''key''],
        severity_threshold = ''HIGH''\<rparr>),
     (''AC-6'', \<lparr>name = ''Least Privilege'',
        description = ''Enforce least privilege'',
        trivy_keywords = [''root'', ''privileged'', ''capability'', ''suid''],
        severity_threshold = ''HIGH''\<rparr>),
     (''SA-8'', \<lparr>name = ''Security and Privacy Engineering Principles'',
        description = ''Apply secure design principles'',
        trivy_keywords = [''insecure'', ''deprecated'', ''vulnerable''],
        severity_threshold = ''MEDIUM''\<rparr>),
     (''RA-5'', \<lparr>name = ''Vulnerability Monitoring and Scanning'',
        description = ''Monitor and scan for vulnerabilities'',
        trivy_keywords = [],
        severity_threshold = ''LOW''\<rparr>)]"

definition SEVERITY_ORDER :: "(string \<times> nat) list" where
  "SEVERITY_ORDER =
    [(''CRITICAL'', 4), (''HIGH'', 3), (''MEDIUM'', 2), (''LOW'', 1), (''UNKNOWN'', 0)]"

section \<open>merge\_jsons\<close>

text \<open>
  \<open>fs path\<close> is what loading \<open>path\<close> does. The loop threads the lines printed so far and
  the dict \<^verbatim>\<open>merged\<close>. The \<^verbatim>\<open>except\<close> clause names two exception classes; any other
  exception leaves the function. The items loop, \<open>merge_items\<close>, writes every key but
  \<^verbatim>\<open>Results\<close> into \<^verbatim>\<open>merged\<close>: the right operand of \<open>++\<close> wins on a common key.
\<close>

definition warning :: "string \<Rightarrow> string" where
  "warning f = ''Warning: Could not load '' @ f"

definition merge_items :: "(string \<rightharpoonup> 'v) \<Rightarrow> 'v document \<Rightarrow> (string \<rightharpoonup> 'v)" where
  "merge_items items data = items ++ (other data)(''Results'' := None)"

fun merge_loop ::
  "(string \<Rightarrow> 'v document load) \<Rightarrow> string list \<Rightarrow> string list \<times> 'v document
     \<Rightarrow> error + (string list \<times> 'v document)" where
  "merge_loop fs [] (out, merged) = Inr (out, merged)"
| "merge_loop fs (f # file_list) (out, merged) =
     (case fs f of
        Loaded data \<Rightarrow>
          (case Results merged of
             None \<Rightarrow> Inl (KeyError ''Results'')
           | Some rs \<Rightarrow>
               merge_loop fs file_list
                 (out,
                  \<lparr>Results = Some (rs @ (case Results data of None \<Rightarrow> [] | Some xs \<Rightarrow> xs)),
                   other = merge_items (other merged) data\<rparr>))
      | Raises e \<Rightarrow>
          if e = FileNotFoundError \<or> e = JSONDecodeError
          then merge_loop fs file_list (out @ [warning f], merged)
          else Inl e)"

definition merge_jsons ::
  "(string \<Rightarrow> 'v document load) \<Rightarrow> string list \<Rightarrow> error + (string list \<times> 'v document)" where
  "merge_jsons fs file_list =
     merge_loop fs file_list ([], \<lparr>Results = Some [], other = Map.empty\<rparr>)"

section \<open>extract\_findings\<close>

text \<open>
  The three dict literals. A dict literal evaluates its values in the order written, so
  the identifier is looked up before \<^verbatim>\<open>Severity\<close>.
\<close>

definition vuln_finding :: "vuln \<Rightarrow> error + finding" where
  "vuln_finding vuln =
     (case VulnerabilityID vuln of
        None \<Rightarrow> Inl (KeyError ''VulnerabilityID'')
      | Some vid \<Rightarrow>
          (case v_Severity vuln of
             None \<Rightarrow> Inl (KeyError ''Severity'')
           | Some sev \<Rightarrow>
               Inr \<lparr>f_type = ''vulnerability'',
                    f_id = vid,
                    f_title = (case v_Title vuln of None \<Rightarrow> vid | Some t \<Rightarrow> t),
                    f_severity = sev,
                    f_package = Some (case PkgName vuln of None \<Rightarrow> ''N/A'' | Some p \<Rightarrow> p),
                    f_installed =
                      Some (case InstalledVersion vuln of None \<Rightarrow> ''N/A'' | Some i \<Rightarrow> i),
                    f_fixed =
                      Some (case FixedVersion vuln of None \<Rightarrow> ''No fix available'' | Some x \<Rightarrow> x),
                    f_description = (case v_Description vuln of None \<Rightarrow> [] | Some d \<Rightarrow> d),
                    f_references = Some (case v_References vuln of None \<Rightarrow> [] | Some r \<Rightarrow> r),
                    f_published = Some (case PublishedDate vuln of None \<Rightarrow> [] | Some d \<Rightarrow> d),
                    f_layer =
                      Some (case Layer vuln of
                              None \<Rightarrow> ''N/A''
                            | Some l \<Rightarrow> (case DiffID l of None \<Rightarrow> ''N/A'' | Some d \<Rightarrow> d))\<rparr>))"

definition misconfig_finding :: "misconfig \<Rightarrow> error + finding" where
  "misconfig_finding m =
     (case ID m of
        None \<Rightarrow> Inl (KeyError ''ID'')
      | Some mid \<Rightarrow>
          (case m_Severity m of
             None \<Rightarrow> Inl (KeyError ''Severity'')
           | Some sev \<Rightarrow>
               Inr \<lparr>f_type = ''misconfiguration'',
                    f_id = mid,
                    f_title = (case m_Title m of None \<Rightarrow> mid | Some t \<Rightarrow> t),
                    f_severity = sev,
                    f_package = None,
                    f_installed = None,
                    f_fixed = None,
                    f_description = (case Message m of None \<Rightarrow> [] | Some d \<Rightarrow> d),
                    f_references = Some (case m_References m of None \<Rightarrow> [] | Some r \<Rightarrow> r),
                    f_published = None,
                    f_layer = None\<rparr>))"

definition secret_finding :: "secret \<Rightarrow> error + finding" where
  "secret_finding s =
     (case RuleID s of
        None \<Rightarrow> Inl (KeyError ''RuleID'')
      | Some rid \<Rightarrow>
          (case s_Severity s of
             None \<Rightarrow> Inl (KeyError ''Severity'')
           | Some sev \<Rightarrow>
               Inr \<lparr>f_type = ''secret'',
                    f_id = ''SECRET-'' @ rid,
                    f_title = (case s_Title s of None \<Rightarrow> ''SECRET-'' @ rid | Some t \<Rightarrow> t),
                    f_severity = sev,
                    f_package = None,
                    f_installed = None,
                    f_fixed = None,
                    f_description = (case Match s of None \<Rightarrow> [] | Some d \<Rightarrow> d),
                    f_references = None,
                    f_published = None,
                    f_layer = None\<rparr>))"

text \<open>
  One inner \<^verbatim>\<open>for\<close> loop: \<^verbatim>\<open>findings.append(literal)\<close> for each record, the first
  exception leaving the whole function.
\<close>

fun append_findings ::
  "('a \<Rightarrow> error + finding) \<Rightarrow> 'a list \<Rightarrow> finding list \<Rightarrow> error + finding list" where
  "append_findings mk [] findings = Inr findings"
| "append_findings mk (x # xs) findings =
     (case mk x of
        Inl e \<Rightarrow> Inl e
      | Inr f \<Rightarrow> append_findings mk xs (findings @ [f]))"

fun extract_loop :: "result list \<Rightarrow> finding list \<Rightarrow> error + finding list" where
  "extract_loop [] findings = Inr findings"
| "extract_loop (result # rest) findings =
     (case append_findings vuln_finding
             (case Vulnerabilities result of None \<Rightarrow> [] | Some vs \<Rightarrow> vs) findings of
        Inl e \<Rightarrow> Inl e
      | Inr findings1 \<Rightarrow>
          (case append_findings misconfig_finding
                  (case Misconfigurations result of None \<Rightarrow> [] | Some ms \<Rightarrow> ms) findings1 of
             Inl e \<Rightarrow> Inl e
           | Inr findings2 \<Rightarrow>
               (case append_findings secret_finding
                       (case Secrets result of None \<Rightarrow> [] | Some ss \<Rightarrow> ss) findings2 of
                  Inl e \<Rightarrow> Inl e
                | Inr findings3 \<Rightarrow> extract_loop rest findings3)))"

definition extract_findings :: "'v document \<Rightarrow> error + finding list" where
  "extract_findings data =
     extract_loop (case Results data of None \<Rightarrow> [] | Some rs \<Rightarrow> rs) []"

section \<open>export\_mitre\_saf\_hdf\<close>

record result_rec =
  status :: string
  code_desc :: string
  start_time :: string

record tags =
  severity :: string

record control =
  c_id :: string
  c_title :: string
  c_desc :: string
  c_impact :: real
  c_tags :: tags
  c_results :: "result_rec list"

record profile =
  p_name :: "string option"
  p_title :: "string option"
  p_controls :: "control list option"

record hdf =
  profiles :: "profile list option"

definition arrow :: string where
  "arrow = [CHR 0xE2, CHR 0x86, CHR 0x92]"

definition impact_table :: "(string \<times> real) list" where
  "impact_table = [(''CRITICAL'', 0.9), (''HIGH'', 0.7), (''MEDIUM'', 0.5), (''LOW'', 0.3)]"

text \<open>
  The control literal of the loop body; \<open>now\<close> is the text of
  \<^verbatim>\<open>datetime.utcnow().isoformat()\<close> at this iteration. The f-string subscripts the
  finding with \<^verbatim>\<open>package\<close>, \<^verbatim>\<open>installed\<close> and \<^verbatim>\<open>fixed\<close>, in this order, for every
  finding.
\<close>

definition make_control :: "string \<Rightarrow> finding \<Rightarrow> error + control" where
  "make_control now f =
     (case f_package f of
        None \<Rightarrow> Inl (KeyError ''package'')
      | Some package \<Rightarrow>
          (case f_installed f of
             None \<Rightarrow> Inl (KeyError ''installed'')
           | Some installed \<Rightarrow>
               (case f_fixed f of
                  None \<Rightarrow> Inl (KeyError ''fixed'')
                | Some fixed \<Rightarrow>
                    Inr \<lparr>c_id = f_id f,
                         c_title = f_title f,
                         c_desc = f_description f,
                         c_impact =
                           (case map_of impact_table (f_severity f) of
                              None \<Rightarrow> 0.1
                            | Some i \<Rightarrow> i),
                         c_tags = \<lparr>severity = f_severity f\<rparr>,
                         c_results =
                           [\<lparr>status = ''failed'',
                             code_desc = package @ '' '' @ installed @ '' '' @ arrow @ '' '' @ fixed,
                             start_time = now @ ''Z''\<rparr>]\<rparr>)))"

text \<open>
  The loop over the findings; \<open>clock k\<close> is the \<open>k\<close>-th reading of the clock and \<open>n\<close>
  counts the readings made so far.
\<close>

fun controls_loop ::
  "(nat \<Rightarrow> string) \<Rightarrow> finding list \<Rightarrow> nat \<Rightarrow> control list \<Rightarrow> error + control list" where
  "controls_loop clock [] n controls = Inr controls"
| "controls_loop clock (f # findings) n controls =
     (case make_control (clock n) f of
        Inl e \<Rightarrow> Inl e
      | Inr control \<Rightarrow> controls_loop clock findings (Suc n) (controls @ [control]))"

definition replace_char :: "char \<Rightarrow> char \<Rightarrow> string \<Rightarrow> string" where
  "replace_char a b s = map (\<lambda>c. if c = a then b else c) s"

definition fallback_hdf :: hdf where
  "fallback_hdf =
     \<lparr>profiles = Some [\<lparr>p_name = Some ''Trivy Container Scan'',
                        p_title = Some ''Automated scan of container image'',
                        p_controls = Some []\<rparr>]\<rparr>"

text \<open>
  \<open>template\<close> is what loading \<^verbatim>\<open>container_hardening.hdf.json\<close> does; only
  \<^verbatim>\<open>FileNotFoundError\<close> is caught there. The function returns the file name together
  with the document it dumps into that file (the write itself is taken to succeed; the
  two progress lines it prints are left out).
\<close>

definition append_controls :: "hdf \<Rightarrow> control list \<Rightarrow> error + hdf" where
  "append_controls h controls =
     (case profiles h of
        None \<Rightarrow> Inl (KeyError ''profiles'')
      | Some [] \<Rightarrow> Inl IndexError
      | Some (p # ps) \<Rightarrow>
          (case p_controls p of
             None \<Rightarrow> Inr (h\<lparr>profiles := Some (p\<lparr>p_controls := Some controls\<rparr> # ps)\<rparr>)
           | Some cs \<Rightarrow> Inr (h\<lparr>profiles := Some (p\<lparr>p_controls := Some (cs @ controls)\<rparr> # ps)\<rparr>)))"

definition export_mitre_saf_hdf ::
  "hdf load \<Rightarrow> (nat \<Rightarrow> string) \<Rightarrow> string \<Rightarrow> finding list \<Rightarrow> string \<Rightarrow> string
     \<Rightarrow> error + (string \<times> hdf)" where
  "export_mitre_saf_hdf template clock image_name findings directory timestamp =
     (case (case template of
              Loaded h \<Rightarrow> Inr h
            | Raises e \<Rightarrow> if e = FileNotFoundError then Inr fallback_hdf else Inl e) of
        Inl e \<Rightarrow> Inl e
      | Inr h \<Rightarrow>
          (case controls_loop clock findings 0 [] of
             Inl e \<Rightarrow> Inl e
           | Inr controls \<Rightarrow>
               (case append_controls h controls of
                  Inl e \<Rightarrow> Inl e
                | Inr h' \<Rightarrow>
                    Inr (directory @ ''/hdf/trivy-hdf-''
                           @ replace_char CHR '':'' CHR ''_''
                               (replace_char CHR ''/'' CHR ''_'' image_name)
                           @ ''_'' @ timestamp @ ''.json'',
                         h'))))"

section \<open>Reading the results\<close>

text \<open>
  Functions that only read a value of the model, used to state the properties below.
  \<open>doc_results\<close> is \<^verbatim>\<open>data.get("Results", [])\<close>, and the three block readers are the
  \<^verbatim>\<open>result.get(key, [])\<close> of \<^verbatim>\<open>extract_findings\<close>.
\<close>

definition doc_results :: "'v document \<Rightarrow> result list" where
  "doc_results data = (case Results data of None \<Rightarrow> [] | Some rs \<Rightarrow> rs)"

definition block_vulns :: "result \<Rightarrow> vuln list" where
  "block_vulns r = (case Vulnerabilities r of None \<Rightarrow> [] | Some vs \<Rightarrow> vs)"

definition block_misconfigs :: "result \<Rightarrow> misconfig list" where
  "block_misconfigs r = (case Misconfigurations r of None \<Rightarrow> [] | Some ms \<Rightarrow> ms)"

definition block_secrets :: "result \<Rightarrow> secret list" where
  "block_secrets r = (case Secrets r of None \<Rightarrow> [] | Some ss \<Rightarrow> ss)"

text \<open>The documents that load, in the order of the file list, and the paths skipped.\<close>

fun loaded_docs :: "(string \<Rightarrow> 'v document load) \<Rightarrow> string list \<Rightarrow> 'v document list" where
  "loaded_docs fs [] = []"
| "loaded_docs fs (f # file_list) =
     (case fs f of
        Loaded data \<Rightarrow> data # loaded_docs fs file_list
      | Raises e \<Rightarrow> loaded_docs fs file_list)"

fun loads :: "'a load \<Rightarrow> bool" where
  "loads (Loaded d) = True"
| "loads (Raises e) = False"

fun skipped :: "'a load \<Rightarrow> bool" where
  "skipped (Loaded d) = False"
| "skipped (Raises e) = (e = FileNotFoundError \<or> e = JSONDecodeError)"

text \<open>
  The document the assembler starts from, and the control sequence of the first profile
  of a document (empty when the document has none).
\<close>

definition start_hdf :: "hdf load \<Rightarrow> hdf" where
  "start_hdf template = (case template of Loaded h \<Rightarrow> h | Raises e \<Rightarrow> fallback_hdf)"

definition profile_controls :: "hdf \<Rightarrow> control list" where
  "profile_controls h =
     (case profiles h of
        None \<Rightarrow> []
      | Some [] \<Rightarrow> []
      | Some (p # ps) \<Rightarrow> (case p_controls p of None \<Rightarrow> [] | Some cs \<Rightarrow> cs))"

section \<open>The matching rule of the specification\<close>

text \<open>
  The source holds no function that tests a finding against an entry of
  \<open>NIST_MAPPING\<close>. The rule below is written from the words of the specification
  (section 4.3), over the two tables of the source, so that the output of the assembler
  can be compared with it: the rank of a severity is its entry in \<open>SEVERITY_ORDER\<close>, 0
  when it has none; a keyword matches when, both sides in lower case, it is a substring
  of the title or of the description.
\<close>

definition spec_rank :: "string \<Rightarrow> nat" where
  "spec_rank sev = (case map_of SEVERITY_ORDER sev of None \<Rightarrow> 0 | Some r \<Rightarrow> r)"

definition spec_lower :: "string \<Rightarrow> string" where
  "spec_lower s =
     map (\<lambda>c. if (65::nat) \<le> of_char c \<and> of_char c \<le> (90::nat)
              then char_of (of_char c + (32::nat)) else c) s"

fun spec_prefix :: "string \<Rightarrow> string \<Rightarrow> bool" where
  "spec_prefix [] t = True"
| "spec_prefix (a # s) [] = False"
| "spec_prefix (a # s) (b # t) = (a = b \<and> spec_prefix s t)"

fun spec_substring :: "string \<Rightarrow> string \<Rightarrow> bool" where
  "spec_substring s [] = (s = [])"
| "spec_substring s (b # t) = (spec_prefix s (b # t) \<or> spec_substring s t)"

definition spec_keyword_hit :: "finding \<Rightarrow> string \<Rightarrow> bool" where
  "spec_keyword_hit f kw =
     (spec_substring (spec_lower kw) (spec_lower (f_title f))
      \<or> spec_substring (spec_lower kw) (spec_lower (f_description f)))"

definition spec_matches :: "finding \<Rightarrow> control_def \<Rightarrow> bool" where
  "spec_matches f c =
     (spec_rank (f_severity f) \<ge> spec_rank (severity_threshold c)
      \<and> (trivy_keywords c = [] \<or> list_ex (spec_keyword_hit f) (trivy_keywords c)))"

section \<open>Example inputs\<close>

text \<open>
  Concrete scan records and documents on which the theorems below are evaluated: a
  vulnerability of severity CRITICAL with every version field, a vulnerability of severity
  LOW without \<^verbatim>\<open>Title\<close>, a vulnerability and a secret without \<^verbatim>\<open>Severity\<close>, a
  misconfiguration and a secret without \<^verbatim>\<open>Title\<close>, a directory of four paths of which
  two load, and a directory with a file whose bytes are not UTF-8 text, on which
  \<^verbatim>\<open>json.load\<close> raises \<^verbatim>\<open>UnicodeDecodeError\<close>.
\<close>

definition example_clock :: "nat \<Rightarrow> string" where
  "example_clock n = ''2025-12-01T12:00:00''"

definition cve_vuln :: vuln where
  "cve_vuln =
     \<lparr>VulnerabilityID = Some ''CVE-2024-0001'',
      v_Title = Some ''Hardcoded password in image'',
      v_Severity = Some ''CRITICAL'',
      PkgName = Some ''openssl'',
      InstalledVersion = Some ''1.1.1'',
      FixedVersion = Some ''1.1.2'',
      v_Description = None,
      v_References = None,
      PublishedDate = None,
      Layer = None\<rparr>"

definition cve_finding :: finding where
  "cve_finding =
     \<lparr>f_type = ''vulnerability'', f_id = ''CVE-2024-0001'',
      f_title = ''Hardcoded password in image'', f_severity = ''CRITICAL'',
      f_package = Some ''openssl'', f_installed = Some ''1.1.1'', f_fixed = Some ''1.1.2'',
      f_description = [], f_references = Some [], f_published = Some [],
      f_layer = Some ''N/A''\<rparr>"

definition si2_vuln :: vuln where
  "si2_vuln =
     \<lparr>VulnerabilityID = Some ''SI-2'',
      v_Title = None,
      v_Severity = Some ''LOW'',
      PkgName = Some ''zlib'',
      InstalledVersion = Some ''1.2.11'',
      FixedVersion = None,
      v_Description = None,
      v_References = None,
      PublishedDate = None,
      Layer = None\<rparr>"

definition si2_finding :: finding where
  "si2_finding =
     \<lparr>f_type = ''vulnerability'', f_id = ''SI-2'',
      f_title = ''SI-2'', f_severity = ''LOW'',
      f_package = Some ''zlib'', f_installed = Some ''1.2.11'',
      f_fixed = Some ''No fix available'',
      f_description = [], f_references = Some [], f_published = Some [],
      f_layer = Some ''N/A''\<rparr>"

definition no_severity_vuln :: vuln where
  "no_severity_vuln =
     \<lparr>VulnerabilityID = Some ''CVE-2024-0003'',
      v_Title = Some ''Heap overflow'',
      v_Severity = None,
      PkgName = Some ''libpng'',
      InstalledVersion = Some ''1.6.0'',
      FixedVersion = Some ''1.6.1'',
      v_Description = None,
      v_References = None,
      PublishedDate = None,
      Layer = None\<rparr>"

definition ds002_misconfig :: misconfig where
  "ds002_misconfig =
     \<lparr>ID = Some ''DS002'',
      m_Title = None,
      m_Severity = Some ''HIGH'',
      Message = Some ''Specify at least 1 USER command in Dockerfile'',
      m_References = None\<rparr>"

definition ds002_finding :: finding where
  "ds002_finding =
     \<lparr>f_type = ''misconfiguration'', f_id = ''DS002'',
      f_title = ''DS002'', f_severity = ''HIGH'',
      f_package = None, f_installed = None, f_fixed = None,
      f_description = ''Specify at least 1 USER command in Dockerfile'',
      f_references = Some [], f_published = None, f_layer = None\<rparr>"

definition aws_secret :: secret where
  "aws_secret =
     \<lparr>RuleID = Some ''AWS-001'',
      s_Title = None,
      s_Severity = Some ''CRITICAL'',
      Match = Some ''aws_access_key_id = ****''\<rparr>"

definition aws_finding :: finding where
  "aws_finding =
     \<lparr>f_type = ''secret'', f_id = ''SECRET-AWS-001'',
      f_title = ''SECRET-AWS-001'', f_severity = ''CRITICAL'',
      f_package = None, f_installed = None, f_fixed = None,
      f_description = ''aws_access_key_id = ****'',
      f_references = None, f_published = None, f_layer = None\<rparr>"

definition vuln_doc :: "string document" where
  "vuln_doc =
     \<lparr>Results = Some [\<lparr>Vulnerabilities = Some [cve_vuln],
                        Misconfigurations = None,
                        Secrets = None\<rparr>],
      other = [''ArtifactName'' \<mapsto> ''repo/img:1'', ''SchemaVersion'' \<mapsto> ''2'']\<rparr>"

definition config_doc :: "string document" where
  "config_doc =
     \<lparr>Results = Some [\<lparr>Vulnerabilities = None,
                        Misconfigurations = Some [ds002_misconfig],
                        Secrets = None\<rparr>,
                      \<lparr>Vulnerabilities = None,
                        Misconfigurations = None,
                        Secrets = Some [aws_secret]\<rparr>],
      other = [''ArtifactName'' \<mapsto> ''repo/img:2'']\<rparr>"

definition secret_doc :: "string document" where
  "secret_doc =
     \<lparr>Results = Some [\<lparr>Vulnerabilities = None,
                        Misconfigurations = None,
                        Secrets = Some [aws_secret]\<rparr>],
      other = Map.empty\<rparr>"

definition mixed_doc :: "string document" where
  "mixed_doc =
     \<lparr>Results = Some [\<lparr>Vulnerabilities = Some [cve_vuln],
                        Misconfigurations = Some [ds002_misconfig],
                        Secrets = None\<rparr>],
      other = Map.empty\<rparr>"

definition titles_doc :: "string document" where
  "titles_doc =
     \<lparr>Results = Some [\<lparr>Vulnerabilities = Some [si2_vuln],
                        Misconfigurations = Some [ds002_misconfig],
                        Secrets = None\<rparr>],
      other = Map.empty\<rparr>"

definition broken_doc :: "string document" where
  "broken_doc =
     \<lparr>Results = Some [\<lparr>Vulnerabilities = Some [cve_vuln, no_severity_vuln],
                        Misconfigurations = None,
                        Secrets = None\<rparr>],
      other = Map.empty\<rparr>"

definition example_fs :: "string \<Rightarrow> string document load" where
  "example_fs path =
     (if path = ''vuln_a.json'' then Loaded vuln_doc
      else if path = ''misconfig_b.json'' then Loaded config_doc
      else if path = ''secret_bad.json'' then Raises JSONDecodeError
      else Raises FileNotFoundError)"

definition example_paths :: "string list" where
  "example_paths = [''vuln_a.json'', ''secret_bad.json'', ''secret_gone.json'', ''misconfig_b.json'']"

definition cve_output :: hdf where
  "cve_output =
     \<lparr>profiles =
        Some [\<lparr>p_name = Some ''Trivy Container Scan'',
               p_title = Some ''Automated scan of container image'',
               p_controls =
                 Some [\<lparr>c_id = ''CVE-2024-0001'',
                        c_title = ''Hardcoded password in image'',
                        c_desc = [],
                        c_impact = 0.9,
                        c_tags = \<lparr>severity = ''CRITICAL''\<rparr>,
                        c_results =
                          [\<lparr>status = ''failed'',
                            code_desc = ''openssl 1.1.1 '' @ arrow @ '' 1.1.2'',
                            start_time = ''2025-12-01T12:00:00Z''\<rparr>]\<rparr>]\<rparr>]\<rparr>"

definition unrated_secret :: secret where
  "unrated_secret =
     \<lparr>RuleID = Some ''AWS-001'',
      s_Title = None,
      s_Severity = None,
      Match = Some ''aws_access_key_id = ****''\<rparr>"

definition unrated_doc :: "string document" where
  "unrated_doc =
     \<lparr>Results = Some [\<lparr>Vulnerabilities = None,
                        Misconfigurations = None,
                        Secrets = Some [unrated_secret]\<rparr>],
      other = Map.empty\<rparr>"

definition undecodable_fs :: "string \<Rightarrow> string document load" where
  "undecodable_fs path =
     (if path = ''vuln_a.json'' then Loaded vuln_doc
      else if path = ''misconfig_b.json'' then Loaded config_doc
      else if path = ''secret_latin1.json'' then Raises (OtherError ''UnicodeDecodeError'')
      else Raises FileNotFoundError)"

section \<open>The loops, step by step\<close>

lemma list_all2_mem:
  "list_all2 P xs ys \<Longrightarrow> x \<in> set xs \<Longrightarrow> \<exists>y \<in> set ys. P x y"
  by (induction rule: list_all2_induct) auto

subsection \<open>The normalizer\<close>

lemma append_findings_eq:
  "append_findings mk xs acc = Inr fs \<Longrightarrow>
     \<exists>ys. fs = acc @ ys \<and> list_all2 (\<lambda>x y. mk x = Inr y) xs ys"
proof (induction xs arbitrary: acc)
  case Nil
  then show ?case by simp
next
  case (Cons x xs)
  then obtain f where f: "mk x = Inr f" and r: "append_findings mk xs (acc @ [f]) = Inr fs"
    by (auto split: sum.splits)
  from Cons.IH [OF r] obtain ys where "fs = (acc @ [f]) @ ys" "list_all2 (\<lambda>x y. mk x = Inr y) xs ys"
    by blast
  with f show ?case by (intro exI [of _ "f # ys"]) simp
qed

lemma append_findings_raises:
  "x \<in> set xs \<Longrightarrow> mk x = Inl e \<Longrightarrow> \<exists>e'. append_findings mk xs acc = Inl e' \<and> (\<exists>y \<in> set xs. mk y = Inl e')"
proof (induction xs arbitrary: acc)
  case Nil
  then show ?case by simp
next
  case (Cons a xs)
  show ?case
  proof (cases "mk a")
    case (Inl e0)
    then show ?thesis by auto
  next
    case (Inr f)
    with Cons.prems have "x \<in> set xs" by auto
    from Cons.IH [OF this Cons.prems(2), of "acc @ [f]"] Inr show ?thesis by auto
  qed
qed

lemma append_findings_error:
  "append_findings mk xs acc = Inl e \<Longrightarrow> \<exists>x \<in> set xs. mk x = Inl e"
  by (induction xs arbitrary: acc) (auto split: sum.splits)

lemma append_findings_returns:
  "(\<forall>x \<in> set xs. \<exists>f. mk x = Inr f) \<Longrightarrow> \<exists>fs. append_findings mk xs acc = Inr fs"
proof (induction xs arbitrary: acc)
  case Nil
  then show ?case by simp
next
  case (Cons a xs)
  then obtain f where "mk a = Inr f" by auto
  with Cons show ?case by auto
qed

lemma append_findings_mem:
  "append_findings mk xs acc = Inr fs \<Longrightarrow> x \<in> set xs \<Longrightarrow> \<exists>f \<in> set fs. mk x = Inr f"
  by (drule append_findings_eq) (auto dest: list_all2_mem)

lemma append_findings_keeps:
  "append_findings mk xs acc = Inr fs \<Longrightarrow> set acc \<subseteq> set fs"
  by (drule append_findings_eq) auto

lemma extract_loop_keeps:
  "extract_loop rs acc = Inr fs \<Longrightarrow> set acc \<subseteq> set fs"
proof (induction rs arbitrary: acc)
  case Nil
  then show ?case by simp
next
  case (Cons r rs)
  from Cons.prems obtain f1 f2 f3 where
    a: "append_findings vuln_finding (block_vulns r) acc = Inr f1" and
    b: "append_findings misconfig_finding (block_misconfigs r) f1 = Inr f2" and
    c: "append_findings secret_finding (block_secrets r) f2 = Inr f3" and
    d: "extract_loop rs f3 = Inr fs"
    by (auto simp: block_vulns_def block_misconfigs_def block_secrets_def split: sum.splits)
  from append_findings_keeps [OF a] append_findings_keeps [OF b] append_findings_keeps [OF c]
    Cons.IH [OF d]
  show ?case by blast
qed

lemma extract_loop_step:
  "extract_loop (r # rs) acc = Inr fs \<Longrightarrow>
     \<exists>f1 f2 f3. append_findings vuln_finding (block_vulns r) acc = Inr f1 \<and>
       append_findings misconfig_finding (block_misconfigs r) f1 = Inr f2 \<and>
       append_findings secret_finding (block_secrets r) f2 = Inr f3 \<and>
       extract_loop rs f3 = Inr fs"
  by (auto simp: block_vulns_def block_misconfigs_def block_secrets_def split: sum.splits)

lemma extract_loop_mem:
  assumes "extract_loop rs acc = Inr fs" and "r \<in> set rs"
  shows "(\<forall>v \<in> set (block_vulns r). \<exists>f \<in> set fs. vuln_finding v = Inr f) \<and>
         (\<forall>m \<in> set (block_misconfigs r). \<exists>f \<in> set fs. misconfig_finding m = Inr f) \<and>
         (\<forall>s \<in> set (block_secrets r). \<exists>f \<in> set fs. secret_finding s = Inr f)"
  using assms
proof (induction rs arbitrary: acc)
  case Nil
  then show ?case by simp
next
  case (Cons a rs)
  from extract_loop_step [OF Cons.prems(1)] obtain f1 f2 f3 where
    a: "append_findings vuln_finding (block_vulns a) acc = Inr f1" and
    b: "append_findings misconfig_finding (block_misconfigs a) f1 = Inr f2" and
    c: "append_findings secret_finding (block_secrets a) f2 = Inr f3" and
    d: "extract_loop rs f3 = Inr fs"
    by blast
  show ?case
  proof (cases "r = a")
    case True
    have k: "set f1 \<subseteq> set fs" "set f2 \<subseteq> set fs" "set f3 \<subseteq> set fs"
      using append_findings_keeps [OF b] append_findings_keeps [OF c] extract_loop_keeps [OF d]
      by auto
    show ?thesis
      using True append_findings_mem [OF a] append_findings_mem [OF b] append_findings_mem [OF c] k
      by blast
  next
    case False
    with Cons.prems have "r \<in> set rs" by simp
    from Cons.IH [OF d this] show ?thesis .
  qed
qed

lemma extract_loop_error:
  "extract_loop rs acc = Inl e \<Longrightarrow>
     \<exists>r \<in> set rs. (\<exists>v \<in> set (block_vulns r). vuln_finding v = Inl e) \<or>
        (\<exists>m \<in> set (block_misconfigs r). misconfig_finding m = Inl e) \<or>
        (\<exists>s \<in> set (block_secrets r). secret_finding s = Inl e)"
proof (induction rs arbitrary: acc)
  case Nil
  then show ?case by simp
next
  case (Cons a rs)
  show ?case
  proof (cases "append_findings vuln_finding (block_vulns a) acc")
    case (Inl e1)
    with Cons.prems have "e1 = e" by (simp add: block_vulns_def)
    with Inl append_findings_error show ?thesis by fastforce
  next
    case f1: (Inr f1)
    show ?thesis
    proof (cases "append_findings misconfig_finding (block_misconfigs a) f1")
      case (Inl e1)
      with Cons.prems f1 have "e1 = e" by (simp add: block_vulns_def block_misconfigs_def)
      with Inl append_findings_error show ?thesis by fastforce
    next
      case f2: (Inr f2)
      show ?thesis
      proof (cases "append_findings secret_finding (block_secrets a) f2")
        case (Inl e1)
        with Cons.prems f1 f2 have "e1 = e"
          by (simp add: block_vulns_def block_misconfigs_def block_secrets_def)
        with Inl append_findings_error show ?thesis by fastforce
      next
        case f3: (Inr f3)
        with Cons.prems f1 f2 have "extract_loop rs f3 = Inl e"
          by (simp add: block_vulns_def block_misconfigs_def block_secrets_def)
        from Cons.IH [OF this] show ?thesis by auto
      qed
    qed
  qed
qed

lemma extract_loop_raises:
  assumes "r \<in> set rs"
    and "(\<exists>v \<in> set (block_vulns r). \<exists>e. vuln_finding v = Inl e) \<or>
        (\<exists>m \<in> set (block_misconfigs r). \<exists>e. misconfig_finding m = Inl e) \<or>
        (\<exists>s \<in> set (block_secrets r). \<exists>e. secret_finding s = Inl e)"
  shows "\<exists>e. extract_loop rs acc = Inl e"
proof (cases "extract_loop rs acc")
  case (Inl e)
  then show ?thesis by blast
next
  case (Inr fs)
  from extract_loop_mem [OF Inr assms(1)] assms(2) show ?thesis by fastforce
qed

lemma finding_errors:
  "vuln_finding v = Inl e \<Longrightarrow> e = KeyError ''VulnerabilityID'' \<or> e = KeyError ''Severity''"
  "misconfig_finding m = Inl e \<Longrightarrow> e = KeyError ''ID'' \<or> e = KeyError ''Severity''"
  "secret_finding s = Inl e \<Longrightarrow> e = KeyError ''RuleID'' \<or> e = KeyError ''Severity''"
  by (auto simp: vuln_finding_def misconfig_finding_def secret_finding_def split: option.splits)

lemma no_severity_raises:
  "v_Severity v = None \<Longrightarrow> \<exists>e. vuln_finding v = Inl e"
  "m_Severity m = None \<Longrightarrow> \<exists>e. misconfig_finding m = Inl e"
  "s_Severity s = None \<Longrightarrow> \<exists>e. secret_finding s = Inl e"
  by (auto simp: vuln_finding_def misconfig_finding_def secret_finding_def split: option.splits)

subsection \<open>The loader\<close>

lemma merge_loop_eq:
  "merge_loop fs ps (out, m) = Inr (out', m') \<Longrightarrow> Results m = Some rs \<Longrightarrow>
     out' = out @ map warning (filter (\<lambda>p. skipped (fs p)) ps) \<and>
     Results m' = Some (rs @ concat (map doc_results (loaded_docs fs ps))) \<and>
     other m' = foldl merge_items (other m) (loaded_docs fs ps)"
proof (induction ps arbitrary: out m rs)
  case Nil
  then show ?case by simp
next
  case (Cons p ps)
  show ?case
  proof (cases "fs p")
    case (Raises e)
    with Cons.prems have e: "e = FileNotFoundError \<or> e = JSONDecodeError"
      and r: "merge_loop fs ps (out @ [warning p], m) = Inr (out', m')"
      by (auto split: if_splits)
    from Cons.IH [OF r Cons.prems(2)] Raises e show ?thesis by auto
  next
    case (Loaded d)
    let ?m = "\<lparr>Results = Some (rs @ doc_results d),
               other = merge_items (other m) d\<rparr>"
    from Cons.prems Loaded have r: "merge_loop fs ps (out, ?m) = Inr (out', m')"
      by (simp add: doc_results_def)
    have "Results ?m = Some (rs @ doc_results d)" by simp
    from Cons.IH [OF r this] Loaded show ?thesis by simp
  qed
qed

lemma merge_loop_returns:
  "(\<forall>p \<in> set ps. loads (fs p) \<or> skipped (fs p)) \<Longrightarrow> Results m = Some rs \<Longrightarrow>
     \<exists>r. merge_loop fs ps (out, m) = Inr r"
proof (induction ps arbitrary: out m rs)
  case Nil
  then show ?case by simp
next
  case (Cons p ps)
  show ?case
  proof (cases "fs p")
    case (Raises e)
    with Cons.prems(1) have e: "e = FileNotFoundError \<or> e = JSONDecodeError" by auto
    from Cons.prems(1) have "\<forall>p \<in> set ps. loads (fs p) \<or> skipped (fs p)" by simp
    from Cons.IH [OF this Cons.prems(2), of "out @ [warning p]"] Raises e show ?thesis by auto
  next
    case (Loaded d)
    let ?m = "\<lparr>Results = Some (rs @ (case Results d of None \<Rightarrow> [] | Some xs \<Rightarrow> xs)),
               other = merge_items (other m) d\<rparr>"
    from Cons.prems(1) have a: "\<forall>p \<in> set ps. loads (fs p) \<or> skipped (fs p)" by simp
    have "Results ?m = Some (rs @ (case Results d of None \<Rightarrow> [] | Some xs \<Rightarrow> xs))" by simp
    from Cons.IH [OF a this, of out] Loaded Cons.prems(2) show ?thesis by simp
  qed
qed

lemma merge_loop_raises:
  "p \<in> set ps \<Longrightarrow> \<not> loads (fs p) \<Longrightarrow> \<not> skipped (fs p) \<Longrightarrow> \<exists>e. merge_loop fs ps (out, m) = Inl e"
proof (induction ps arbitrary: out m)
  case Nil
  then show ?case by simp
next
  case (Cons a ps)
  show ?case
  proof (cases "p = a")
    case True
    with Cons.prems obtain e where "fs a = Raises e" "e \<noteq> FileNotFoundError" "e \<noteq> JSONDecodeError"
      by (cases "fs a") auto
    then show ?thesis by simp
  next
    case False
    with Cons.prems have "p \<in> set ps" by simp
    from Cons.IH [OF this Cons.prems(2,3)] show ?thesis
      by (auto split: load.splits option.splits)
  qed
qed

lemma merge_jsons_eq:
  "merge_jsons fs ps = Inr (out, m) \<Longrightarrow>
     out = map warning (filter (\<lambda>p. skipped (fs p)) ps) \<and>
     Results m = Some (concat (map doc_results (loaded_docs fs ps))) \<and>
     other m = foldl merge_items Map.empty (loaded_docs fs ps)"
  unfolding merge_jsons_def by (drule merge_loop_eq) auto

lemma merge_jsons_returns:
  "(\<forall>p \<in> set ps. loads (fs p) \<or> skipped (fs p)) \<Longrightarrow> \<exists>r. merge_jsons fs ps = Inr r"
  unfolding merge_jsons_def by (rule merge_loop_returns) auto

lemma loaded_docs_filter:
  "loaded_docs fs (filter (\<lambda>p. loads (fs p)) ps) = loaded_docs fs ps"
  by (induction ps) (auto split: load.splits)

lemma skipped_filter:
  "filter (\<lambda>p. skipped (fs p)) (filter (\<lambda>p. loads (fs p)) ps) = []"
  by (induction ps) (auto split: load.splits elim: loads.elims)

lemma fold_last:
  "(other d) k = Some v \<Longrightarrow> k \<noteq> ''Results'' \<Longrightarrow> \<forall>d' \<in> set ds2. other d' k = None \<Longrightarrow>
   foldl merge_items m0 (ds1 @ d # ds2) k = Some v"
proof (induction ds2 rule: rev_induct)
  case Nil
  then show ?case by (simp add: merge_items_def map_add_def)
next
  case (snoc x xs)
  then show ?case by (simp add: merge_items_def map_add_def flip: append_Cons append_assoc)
qed

lemma fold_dom:
  "foldl merge_items m0 ds k = Some v \<Longrightarrow>
    m0 k = Some v \<or> (\<exists>d \<in> set ds. other d k = Some v \<and> k \<noteq> ''Results'')"
  by (induction ds arbitrary: v rule: rev_induct) (auto simp: merge_items_def map_add_def split: option.splits if_splits)

subsection \<open>The assembler\<close>

lemma make_control_fields:
  "make_control now f = Inr c \<Longrightarrow>
     c_id c = f_id f \<and> c_title c = f_title f \<and> c_desc c = f_description f \<and>
     severity (c_tags c) = f_severity f \<and>
     (\<exists>r. c_results c = [r] \<and> status r = ''failed'' \<and> start_time r = now @ ''Z'')"
  by (auto simp: make_control_def split: option.splits)

lemma make_control_returns:
  "f_package f = Some p \<Longrightarrow> f_installed f = Some i \<Longrightarrow> f_fixed f = Some x \<Longrightarrow>
     \<exists>c. make_control now f = Inr c \<and>
       map code_desc (c_results c) = [p @ '' '' @ i @ '' '' @ arrow @ '' '' @ x]"
  by (simp add: make_control_def)

lemma make_control_error:
  "make_control now f = Inl e \<Longrightarrow>
     e = KeyError ''package'' \<or> e = KeyError ''installed'' \<or> e = KeyError ''fixed''"
  by (auto simp: make_control_def split: option.splits)

lemma controls_loop_eq:
  "controls_loop clock fs n acc = Inr cs \<Longrightarrow>
     \<exists>new. cs = acc @ new \<and> list_all2 (\<lambda>f c. \<exists>now. make_control now f = Inr c) fs new"
proof (induction fs arbitrary: n acc)
  case Nil
  then show ?case by simp
next
  case (Cons f fs)
  then obtain c where c: "make_control (clock n) f = Inr c"
    and r: "controls_loop clock fs (Suc n) (acc @ [c]) = Inr cs"
    by (auto split: sum.splits)
  from Cons.IH [OF r] obtain new where
    "cs = (acc @ [c]) @ new" "list_all2 (\<lambda>f c. \<exists>now. make_control now f = Inr c) fs new"
    by blast
  with c show ?case by (intro exI [of _ "c # new"]) auto
qed

lemma controls_loop_clock:
  "controls_loop clock fs n acc = Inr cs \<Longrightarrow> i < length fs \<Longrightarrow>
     make_control (clock (n + i)) (fs ! i) = Inr (cs ! (length acc + i))"
proof (induction fs arbitrary: n acc i)
  case Nil
  then show ?case by simp
next
  case (Cons f fs)
  then obtain c where c: "make_control (clock n) f = Inr c"
    and r: "controls_loop clock fs (Suc n) (acc @ [c]) = Inr cs"
    by (auto split: sum.splits)
  show ?case
  proof (cases i)
    case 0
    from controls_loop_eq [OF r] obtain new where "cs = (acc @ [c]) @ new" by blast
    with 0 c show ?thesis by (simp add: nth_append)
  next
    case (Suc j)
    with Cons.prems have "j < length fs" by simp
    from Cons.IH [OF r this] Suc show ?thesis by simp
  qed
qed

lemma controls_loop_raises:
  "f \<in> set fs \<Longrightarrow> make_control now f = Inl e \<Longrightarrow> \<exists>e'. controls_loop clock fs n acc = Inl e'"
proof (induction fs arbitrary: n acc)
  case Nil
  then show ?case by simp
next
  case (Cons a fs)
  show ?case
  proof (cases "make_control (clock n) a")
    case (Inl e0)
    then show ?thesis by simp
  next
    case (Inr c)
    have "f \<noteq> a"
    proof
      assume "f = a"
      with Cons.prems(2) Inr show False by (auto simp: make_control_def split: option.splits)
    qed
    with Cons.prems have "f \<in> set fs" by simp
    from Cons.IH [OF this Cons.prems(2)] Inr show ?thesis by simp
  qed
qed


lemma append_controls_eq:
  "append_controls h cs = Inr h' \<Longrightarrow> profile_controls h' = profile_controls h @ cs"
  by (auto simp: append_controls_def profile_controls_def split: option.splits list.splits)

lemma export_eq:
  assumes "export_mitre_saf_hdf template clock image_name findings directory timestamp
             = Inr (filename, out)"
  shows "\<exists>new. controls_loop clock findings 0 [] = Inr new \<and>
           profile_controls out = profile_controls (start_hdf template) @ new"
proof -
  from assms obtain h new where
    h: "(case template of Loaded h \<Rightarrow> Inr h
          | Raises e \<Rightarrow> if e = FileNotFoundError then Inr fallback_hdf else Inl e) = Inr h"
    and n: "controls_loop clock findings 0 [] = Inr new"
    and a: "append_controls h new = Inr out"
    unfolding export_mitre_saf_hdf_def by (auto split: sum.splits)
  from h have "h = start_hdf template"
    by (auto simp: start_hdf_def split: load.splits if_splits)
  with append_controls_eq [OF a] n show ?thesis by blast
qed

text \<open>
  When the assembler returns: on findings that all carry the three version fields (every
  finding made from a vulnerability record does), with a template that is absent or has
  a first profile.
\<close>

lemma controls_loop_returns:
  "\<forall>f \<in> set fs. f_package f \<noteq> None \<and> f_installed f \<noteq> None \<and> f_fixed f \<noteq> None \<Longrightarrow>
     \<exists>cs. controls_loop clock fs n acc = Inr cs"
proof (induction fs arbitrary: n acc)
  case Nil
  then show ?case by simp
next
  case (Cons f fs)
  then obtain p i x where "f_package f = Some p" "f_installed f = Some i" "f_fixed f = Some x"
    by auto
  from make_control_returns [OF this] obtain c where "make_control (clock n) f = Inr c"
    by blast
  with Cons show ?case by simp
qed

lemma export_returns:
  assumes "\<forall>f \<in> set findings. f_package f \<noteq> None \<and> f_installed f \<noteq> None \<and> f_fixed f \<noteq> None"
    and "template = Raises FileNotFoundError \<or> (\<exists>h p ps. template = Loaded h \<and> profiles h = Some (p # ps))"
  shows "\<exists>filename out.
           export_mitre_saf_hdf template clock image_name findings directory timestamp
             = Inr (filename, out)"
proof -
  from controls_loop_returns [OF assms(1)] obtain cs where
    c: "controls_loop clock findings 0 [] = Inr cs" by blast
  from assms(2) show ?thesis
  proof
    assume "template = Raises FileNotFoundError"
    with c show ?thesis
      by (simp add: export_mitre_saf_hdf_def fallback_hdf_def append_controls_def)
  next
    assume "\<exists>h p ps. template = Loaded h \<and> profiles h = Some (p # ps)"
    then obtain h p ps where "template = Loaded h" "profiles h = Some (p # ps)" by blast
    with c show ?thesis
      by (cases "p_controls p") (simp_all add: export_mitre_saf_hdf_def append_controls_def)
  qed
qed

lemma export_one_control_per_finding:
  assumes "export_mitre_saf_hdf template clock image_name findings directory timestamp
             = Inr (filename, out)"
  shows "\<exists>new. profile_controls out = profile_controls (start_hdf template) @ new \<and>
           length new = length findings \<and>
           (\<forall>i < length findings. make_control (clock i) (findings ! i) = Inr (new ! i))"
proof -
  from export_eq [OF assms] obtain new where
    n: "controls_loop clock findings 0 [] = Inr new"
    and p: "profile_controls out = profile_controls (start_hdf template) @ new"
    by blast
  from controls_loop_eq [OF n] have "length new = length findings"
    by (auto dest: list_all2_lengthD)
  moreover have "make_control (clock i) (findings ! i) = Inr (new ! i)" if "i < length findings" for i
    using controls_loop_clock [OF n that] by simp
  ultimately show ?thesis using p by blast
qed

section \<open>The claims\<close>

subsection \<open>The loader\<close>

text \<open>
  Claim C5. When every path of the file list loads or is skipped, the loader returns, and
  the \<^verbatim>\<open>Results\<close> of the merged corpus is the concatenation, in the order of the file
  list, of the \<^verbatim>\<open>Results\<close> of the documents that loaded: nothing is dropped and nothing
  is deduplicated, so its length is the sum of their lengths.
\<close>

theorem C5_results_concatenated:
  assumes "\<forall>p \<in> set file_list. loads (fs p) \<or> skipped (fs p)"
  shows "\<exists>out merged. merge_jsons fs file_list = Inr (out, merged) \<and>
           Results merged = Some (concat (map doc_results (loaded_docs fs file_list))) \<and>
           length (doc_results merged) =
             sum_list (map (\<lambda>d. length (doc_results d)) (loaded_docs fs file_list))"
proof -
  from merge_jsons_returns [OF assms] obtain out merged where
    r: "merge_jsons fs file_list = Inr (out, merged)" by force
  from merge_jsons_eq [OF r] have
    c: "Results merged = Some (concat (map doc_results (loaded_docs fs file_list)))" by simp
  then have "length (doc_results merged) =
      sum_list (map (\<lambda>d. length (doc_results d)) (loaded_docs fs file_list))"
    by (simp add: doc_results_def length_concat comp_def)
  with r c show ?thesis by blast
qed

theorem C5_results_concatenated_witness:
  "\<exists>out merged. merge_jsons example_fs example_paths = Inr (out, merged) \<and>
     Results merged = Some (doc_results vuln_doc @ doc_results config_doc) \<and>
     length (doc_results merged) = 3"
  using C5_results_concatenated [of example_paths example_fs]
  by (simp add: example_paths_def example_fs_def doc_results_def vuln_doc_def config_doc_def
      numeral_3_eq_3)

text \<open>
  Claim C6. For a key other than \<^verbatim>\<open>Results\<close>, the merged corpus holds the value of the
  last loaded document, in the order of the file list, that has the key.
\<close>

theorem C6_last_write_wins:
  assumes "merge_jsons fs file_list = Inr (out, merged)"
    and "loaded_docs fs file_list = before @ d # after"
    and "other d k = Some v"
    and "k \<noteq> ''Results''"
    and "\<forall>d' \<in> set after. other d' k = None"
  shows "other merged k = Some v"
proof -
  from merge_jsons_eq [OF assms(1)] have
    "other merged = foldl merge_items Map.empty (loaded_docs fs file_list)" by simp
  with assms(2) fold_last [OF assms(3,4,5)] show ?thesis by simp
qed

theorem C6_last_write_wins_witness:
  "\<exists>out merged. merge_jsons example_fs example_paths = Inr (out, merged) \<and>
     loaded_docs example_fs example_paths = [vuln_doc, config_doc] \<and>
     other vuln_doc ''ArtifactName'' = Some ''repo/img:1'' \<and>
     other config_doc ''ArtifactName'' = Some ''repo/img:2'' \<and>
     other merged ''ArtifactName'' = Some ''repo/img:2''"
proof -
  obtain out merged where r: "merge_jsons example_fs example_paths = Inr (out, merged)"
    using merge_jsons_returns [of example_paths example_fs]
    by (force simp: example_paths_def example_fs_def)
  have l: "loaded_docs example_fs example_paths = [vuln_doc] @ config_doc # []"
    by (simp add: example_paths_def example_fs_def)
  have "other merged ''ArtifactName'' = Some ''repo/img:2''"
    using C6_last_write_wins [OF r l, of "''ArtifactName''" "''repo/img:2''"]
    by (simp add: config_doc_def)
  with r l show ?thesis by (simp add: vuln_doc_def config_doc_def)
qed

text \<open>
  What the loader does with the two exception classes it catches: when every path loads
  or raises \<^verbatim>\<open>FileNotFoundError\<close> or \<^verbatim>\<open>JSONDecodeError\<close>, it returns, it has printed
  one warning for each such path, in order, and the merged corpus is made of the
  documents that loaded and of nothing else.
\<close>

lemma merge_jsons_skips_caught:
  assumes "\<forall>p \<in> set file_list. loads (fs p) \<or> skipped (fs p)"
  shows "merge_jsons fs file_list
           = Inr (map warning (filter (\<lambda>p. skipped (fs p)) file_list),
                  \<lparr>Results = Some (concat (map doc_results (loaded_docs fs file_list))),
                   other = foldl merge_items Map.empty (loaded_docs fs file_list)\<rparr>)"
proof -
  from merge_jsons_returns [OF assms] obtain out merged where
    r: "merge_jsons fs file_list = Inr (out, merged)" by force
  from merge_jsons_eq [OF r] have
    "out = map warning (filter (\<lambda>p. skipped (fs p)) file_list)"
    "merged = \<lparr>Results = Some (concat (map doc_results (loaded_docs fs file_list))),
               other = foldl merge_items Map.empty (loaded_docs fs file_list)\<rparr>"
    by simp_all
  with r show ?thesis by simp
qed

text \<open>
  Claim C9. A file that cannot be parsed is to be skipped with a warning, and the loader
  is never to raise for it. The \<^verbatim>\<open>except\<close> clause names \<^verbatim>\<open>FileNotFoundError\<close> and
  \<^verbatim>\<open>JSONDecodeError\<close> only. A file whose bytes are not UTF-8 text cannot be parsed
  either, but \<^verbatim>\<open>json.load\<close> raises \<^verbatim>\<open>UnicodeDecodeError\<close> on it, which is neither of
  the two: with such a file between two files that load, the exception leaves
  \<^verbatim>\<open>merge_jsons\<close>, no warning is printed and no corpus is returned.
\<close>

theorem C9_undecodable_file_aborts:
  "undecodable_fs ''vuln_a.json'' = Loaded vuln_doc \<and>
   undecodable_fs ''secret_latin1.json'' = Raises (OtherError ''UnicodeDecodeError'') \<and>
   undecodable_fs ''misconfig_b.json'' = Loaded config_doc \<and>
   merge_jsons undecodable_fs [''vuln_a.json'', ''secret_latin1.json'', ''misconfig_b.json'']
     = Inl (OtherError ''UnicodeDecodeError'')"
proof -
  have a: "undecodable_fs ''vuln_a.json'' = Loaded vuln_doc"
    and b: "undecodable_fs ''secret_latin1.json'' = Raises (OtherError ''UnicodeDecodeError'')"
    and c: "undecodable_fs ''misconfig_b.json'' = Loaded config_doc"
    by (simp_all add: undecodable_fs_def)
  have d: "merge_jsons undecodable_fs
             [''vuln_a.json'', ''secret_latin1.json'', ''misconfig_b.json'']
           = Inl (OtherError ''UnicodeDecodeError'')"
    by (simp add: merge_jsons_def a b)
  show ?thesis by (rule conjI a b c d)+
qed

subsection \<open>The normalizer\<close>

text \<open>
  Every record that carries its identifier and its severity is normalized, and a corpus
  of such records is extracted without an exception.
\<close>

lemma extract_loop_returns:
  assumes "\<forall>blk \<in> set rs.
      (\<forall>v \<in> set (block_vulns blk). \<exists>f. vuln_finding v = Inr f) \<and>
      (\<forall>m \<in> set (block_misconfigs blk). \<exists>f. misconfig_finding m = Inr f) \<and>
      (\<forall>s \<in> set (block_secrets blk). \<exists>f. secret_finding s = Inr f)"
  shows "\<exists>fs. extract_loop rs acc = Inr fs"
proof (cases "extract_loop rs acc")
  case (Inl e)
  from extract_loop_error [OF Inl] assms show ?thesis by fastforce
next
  case (Inr fs)
  then show ?thesis by blast
qed

lemma extract_findings_returns:
  assumes "\<forall>blk \<in> set (doc_results data).
      (\<forall>v \<in> set (block_vulns blk). VulnerabilityID v \<noteq> None \<and> v_Severity v \<noteq> None) \<and>
      (\<forall>m \<in> set (block_misconfigs blk). ID m \<noteq> None \<and> m_Severity m \<noteq> None) \<and>
      (\<forall>s \<in> set (block_secrets blk). RuleID s \<noteq> None \<and> s_Severity s \<noteq> None)"
  shows "\<exists>fs. extract_findings data = Inr fs"
proof -
  have "\<forall>blk \<in> set (doc_results data).
      (\<forall>v \<in> set (block_vulns blk). \<exists>f. vuln_finding v = Inr f) \<and>
      (\<forall>m \<in> set (block_misconfigs blk). \<exists>f. misconfig_finding m = Inr f) \<and>
      (\<forall>s \<in> set (block_secrets blk). \<exists>f. secret_finding s = Inr f)"
    using assms
    by (fastforce simp: vuln_finding_def misconfig_finding_def secret_finding_def)
  from extract_loop_returns [OF this] show ?thesis
    by (simp add: extract_findings_def doc_results_def)
qed

lemma extract_findings_mem:
  assumes "extract_findings data = Inr fs" and "blk \<in> set (doc_results data)"
  shows "(\<forall>v \<in> set (block_vulns blk). \<exists>f \<in> set fs. vuln_finding v = Inr f) \<and>
         (\<forall>m \<in> set (block_misconfigs blk). \<exists>f \<in> set fs. misconfig_finding m = Inr f) \<and>
         (\<forall>s \<in> set (block_secrets blk). \<exists>f \<in> set fs. secret_finding s = Inr f)"
  using assms extract_loop_mem [of "doc_results data" "[]" fs blk]
  by (simp add: extract_findings_def doc_results_def)

text \<open>
  Claim C7, amended. A secret record with rule identifier \<open>r\<close> that also carries
  \<^verbatim>\<open>Severity\<close> is normalized to a finding whose id is \<^verbatim>\<open>SECRET-\<close> followed by \<open>r\<close>,
  whose title is the record's \<^verbatim>\<open>Title\<close> or, without one, that same id, and whose
  description is the record's \<^verbatim>\<open>Match\<close> (the empty string without one); whenever the
  extraction of a corpus that holds the record returns, this finding is among its
  findings.
\<close>

theorem C7_secret_normalized:
  assumes "blk \<in> set (doc_results data)"
    and "s \<in> set (block_secrets blk)"
    and "RuleID s = Some r"
    and "s_Severity s = Some sev"
  shows "\<exists>f. secret_finding s = Inr f \<and>
           f_id f = ''SECRET-'' @ r \<and>
           f_title f = (case s_Title s of None \<Rightarrow> ''SECRET-'' @ r | Some t \<Rightarrow> t) \<and>
           f_description f = (case Match s of None \<Rightarrow> [] | Some m \<Rightarrow> m) \<and>
           (\<forall>fs. extract_findings data = Inr fs \<longrightarrow> f \<in> set fs)"
proof -
  from assms(3,4) obtain f where f: "secret_finding s = Inr f"
    and p: "f_id f = ''SECRET-'' @ r"
      "f_title f = (case s_Title s of None \<Rightarrow> ''SECRET-'' @ r | Some t \<Rightarrow> t)"
      "f_description f = (case Match s of None \<Rightarrow> [] | Some m \<Rightarrow> m)"
    by (simp add: secret_finding_def)
  have "f \<in> set fs" if "extract_findings data = Inr fs" for fs
    using extract_findings_mem [OF that assms(1)] assms(2) f by auto
  with f p show ?thesis by blast
qed

theorem C7_secret_normalized_witness:
  "extract_findings secret_doc = Inr [aws_finding] \<and>
   RuleID aws_secret = Some ''AWS-001'' \<and> s_Title aws_secret = None \<and>
   secret_finding aws_secret = Inr aws_finding \<and>
   f_id aws_finding = ''SECRET-AWS-001'' \<and>
   f_title aws_finding = ''SECRET-AWS-001'' \<and>
   f_description aws_finding = ''aws_access_key_id = ****''"
proof -
  have e: "extract_findings secret_doc = Inr [aws_finding]"
    by (simp add: extract_findings_def secret_doc_def secret_finding_def aws_secret_def
        aws_finding_def)
  have b: "\<lparr>Vulnerabilities = None, Misconfigurations = None, Secrets = Some [aws_secret]\<rparr>
             \<in> set (doc_results secret_doc)"
    by (simp add: doc_results_def secret_doc_def)
  have s: "aws_secret \<in> set (block_secrets
             \<lparr>Vulnerabilities = None, Misconfigurations = None, Secrets = Some [aws_secret]\<rparr>)"
    by (simp add: block_secrets_def)
  have "RuleID aws_secret = Some ''AWS-001''" "s_Severity aws_secret = Some ''CRITICAL''"
    by (simp_all add: aws_secret_def)
  from C7_secret_normalized [OF b s this] e show ?thesis
    by (auto simp: aws_secret_def aws_finding_def)
qed

text \<open>
  The claim as it stands, for every secret record with a rule identifier, fails: the
  record \<open>unrated_secret\<close> has the rule identifier \<^verbatim>\<open>AWS-001\<close> and no \<^verbatim>\<open>Severity\<close>;
  the dict literal subscripts \<^verbatim>\<open>Severity\<close> and raises, so no finding is made of the
  record and the extraction of the document that holds it returns nothing.
\<close>

theorem C7_secret_without_severity_counterexample:
  "RuleID unrated_secret = Some ''AWS-001'' \<and>
   secret_finding unrated_secret = Inl (KeyError ''Severity'') \<and>
   extract_findings unrated_doc = Inl (KeyError ''Severity'')"
proof -
  have a: "RuleID unrated_secret = Some ''AWS-001''"
    by (simp add: unrated_secret_def)
  have b: "secret_finding unrated_secret = Inl (KeyError ''Severity'')"
    by (simp add: secret_finding_def unrated_secret_def)
  have c: "extract_findings unrated_doc = Inl (KeyError ''Severity'')"
    by (simp add: extract_findings_def unrated_doc_def b)
  show ?thesis by (rule conjI a b c)+
qed

text \<open>
  Claim C8. A vulnerability record without \<^verbatim>\<open>Title\<close> that carries its
  \<^verbatim>\<open>VulnerabilityID\<close> (and a severity) is normalized to a finding whose title is that
  identifier, and a misconfiguration record without \<^verbatim>\<open>Title\<close> that carries its
  \<^verbatim>\<open>ID\<close> (and a severity) to a finding whose title is that \<^verbatim>\<open>ID\<close>; whenever the
  extraction of a corpus that holds the record returns, the finding is among its findings.
\<close>

theorem C8_title_defaults_to_id:
  assumes "blk \<in> set (doc_results data)"
  shows "(v \<in> set (block_vulns blk) \<and> v_Title v = None \<and>
            VulnerabilityID v = Some i \<and> v_Severity v = Some sev \<longrightarrow>
          (\<exists>f. vuln_finding v = Inr f \<and> f_id f = i \<and> f_title f = i \<and>
             (\<forall>fs. extract_findings data = Inr fs \<longrightarrow> f \<in> set fs))) \<and>
         (m \<in> set (block_misconfigs blk) \<and> m_Title m = None \<and>
            ID m = Some j \<and> m_Severity m = Some sev' \<longrightarrow>
          (\<exists>g. misconfig_finding m = Inr g \<and> f_id g = j \<and> f_title g = j \<and>
             (\<forall>fs. extract_findings data = Inr fs \<longrightarrow> g \<in> set fs)))"
proof (intro conjI impI)
  assume a: "v \<in> set (block_vulns blk) \<and> v_Title v = None \<and>
            VulnerabilityID v = Some i \<and> v_Severity v = Some sev"
  then obtain f where f: "vuln_finding v = Inr f" and p: "f_id f = i" "f_title f = i"
    by (simp add: vuln_finding_def)
  have "f \<in> set fs" if "extract_findings data = Inr fs" for fs
    using extract_findings_mem [OF that assms] a f by auto
  with f p show "\<exists>f. vuln_finding v = Inr f \<and> f_id f = i \<and> f_title f = i \<and>
             (\<forall>fs. extract_findings data = Inr fs \<longrightarrow> f \<in> set fs)" by blast
next
  assume a: "m \<in> set (block_misconfigs blk) \<and> m_Title m = None \<and>
            ID m = Some j \<and> m_Severity m = Some sev'"
  then obtain g where g: "misconfig_finding m = Inr g" and p: "f_id g = j" "f_title g = j"
    by (simp add: misconfig_finding_def)
  have "g \<in> set fs" if "extract_findings data = Inr fs" for fs
    using extract_findings_mem [OF that assms] a g by auto
  with g p show "\<exists>g. misconfig_finding m = Inr g \<and> f_id g = j \<and> f_title g = j \<and>
             (\<forall>fs. extract_findings data = Inr fs \<longrightarrow> g \<in> set fs)" by blast
qed

theorem C8_title_defaults_to_id_witness:
  "extract_findings titles_doc = Inr [si2_finding, ds002_finding] \<and>
   v_Title si2_vuln = None \<and> VulnerabilityID si2_vuln = Some ''SI-2'' \<and>
   vuln_finding si2_vuln = Inr si2_finding \<and> f_title si2_finding = ''SI-2'' \<and>
   m_Title ds002_misconfig = None \<and> ID ds002_misconfig = Some ''DS002'' \<and>
   misconfig_finding ds002_misconfig = Inr ds002_finding \<and> f_title ds002_finding = ''DS002''"
proof -
  let ?blk = "\<lparr>Vulnerabilities = Some [si2_vuln], Misconfigurations = Some [ds002_misconfig],
               Secrets = None\<rparr>"
  have e: "extract_findings titles_doc = Inr [si2_finding, ds002_finding]"
    by (simp add: extract_findings_def titles_doc_def vuln_finding_def misconfig_finding_def
        si2_vuln_def si2_finding_def ds002_misconfig_def ds002_finding_def)
  have b: "?blk \<in> set (doc_results titles_doc)"
    by (simp add: doc_results_def titles_doc_def)
  have h: "si2_vuln \<in> set (block_vulns ?blk) \<and> v_Title si2_vuln = None \<and>
      VulnerabilityID si2_vuln = Some ''SI-2'' \<and> v_Severity si2_vuln = Some ''LOW''"
    "ds002_misconfig \<in> set (block_misconfigs ?blk) \<and> m_Title ds002_misconfig = None \<and>
      ID ds002_misconfig = Some ''DS002'' \<and> m_Severity ds002_misconfig = Some ''HIGH''"
    by (simp_all add: block_vulns_def block_misconfigs_def si2_vuln_def ds002_misconfig_def)
  from C8_title_defaults_to_id [OF b, of si2_vuln "''SI-2''" "''LOW''" ds002_misconfig
      "''DS002''" "''HIGH''"] h e
  show ?thesis by (auto simp: si2_finding_def ds002_finding_def)
qed

text \<open>
  Claim C10. The extraction of a corpus in which some vulnerability, misconfiguration or
  secret record has no \<^verbatim>\<open>Severity\<close> raises \<^verbatim>\<open>KeyError\<close> and returns no finding at all;
  the key of the error is \<^verbatim>\<open>Severity\<close> when every record of the corpus carries its
  identifier.
\<close>

theorem C10_severity_required:
  assumes "blk \<in> set (doc_results data)"
    and "(\<exists>v \<in> set (block_vulns blk). v_Severity v = None) \<or>
         (\<exists>m \<in> set (block_misconfigs blk). m_Severity m = None) \<or>
         (\<exists>s \<in> set (block_secrets blk). s_Severity s = None)"
  shows "(\<exists>k. extract_findings data = Inl (KeyError k)) \<and>
         ((\<forall>b \<in> set (doc_results data).
             (\<forall>v \<in> set (block_vulns b). VulnerabilityID v \<noteq> None) \<and>
             (\<forall>m \<in> set (block_misconfigs b). ID m \<noteq> None) \<and>
             (\<forall>s \<in> set (block_secrets b). RuleID s \<noteq> None)) \<longrightarrow>
          extract_findings data = Inl (KeyError ''Severity''))"
proof -
  have "(\<exists>v \<in> set (block_vulns blk). \<exists>e. vuln_finding v = Inl e) \<or>
        (\<exists>m \<in> set (block_misconfigs blk). \<exists>e. misconfig_finding m = Inl e) \<or>
        (\<exists>s \<in> set (block_secrets blk). \<exists>e. secret_finding s = Inl e)"
    using assms(2) no_severity_raises by blast
  from extract_loop_raises [OF assms(1) this, of "[]"] obtain e where
    e: "extract_loop (doc_results data) [] = Inl e" by blast
  from extract_loop_error [OF e] obtain b where b: "b \<in> set (doc_results data)"
    and c: "(\<exists>v \<in> set (block_vulns b). vuln_finding v = Inl e) \<or>
        (\<exists>m \<in> set (block_misconfigs b). misconfig_finding m = Inl e) \<or>
        (\<exists>s \<in> set (block_secrets b). secret_finding s = Inl e)"
    by blast
  from c finding_errors have k: "\<exists>k. e = KeyError k" by blast
  have r: "extract_findings data = Inl e"
    using e by (simp add: extract_findings_def doc_results_def)
  have "e = KeyError ''Severity''"
    if "\<forall>b \<in> set (doc_results data).
             (\<forall>v \<in> set (block_vulns b). VulnerabilityID v \<noteq> None) \<and>
             (\<forall>m \<in> set (block_misconfigs b). ID m \<noteq> None) \<and>
             (\<forall>s \<in> set (block_secrets b). RuleID s \<noteq> None)"
    using c that b
    by (fastforce simp: vuln_finding_def misconfig_finding_def secret_finding_def
        split: option.splits)
  with k r show ?thesis by auto
qed

theorem C10_severity_required_witness:
  "v_Severity no_severity_vuln = None \<and>
   VulnerabilityID no_severity_vuln = Some ''CVE-2024-0003'' \<and>
   extract_findings broken_doc = Inl (KeyError ''Severity'')"
proof -
  let ?blk = "\<lparr>Vulnerabilities = Some [cve_vuln, no_severity_vuln], Misconfigurations = None,
               Secrets = None\<rparr>"
  have b: "?blk \<in> set (doc_results broken_doc)"
    by (simp add: doc_results_def broken_doc_def)
  have h: "(\<exists>v \<in> set (block_vulns ?blk). v_Severity v = None) \<or>
         (\<exists>m \<in> set (block_misconfigs ?blk). m_Severity m = None) \<or>
         (\<exists>s \<in> set (block_secrets ?blk). s_Severity s = None)"
    by (simp add: block_vulns_def no_severity_vuln_def)
  have i: "\<forall>b \<in> set (doc_results broken_doc).
             (\<forall>v \<in> set (block_vulns b). VulnerabilityID v \<noteq> None) \<and>
             (\<forall>m \<in> set (block_misconfigs b). ID m \<noteq> None) \<and>
             (\<forall>s \<in> set (block_secrets b). RuleID s \<noteq> None)"
    by (simp add: doc_results_def broken_doc_def block_vulns_def block_misconfigs_def
        block_secrets_def cve_vuln_def no_severity_vuln_def)
  from C10_severity_required [OF b h] i show ?thesis
    by (simp add: no_severity_vuln_def)
qed

subsection \<open>The assembler\<close>

text \<open>
  The code description of a finding that carries the three version fields, as every
  finding made from a vulnerability record does.
\<close>

lemma vulnerability_code_desc:
  assumes "vuln_finding v = Inr f"
  shows "\<exists>c. make_control now f = Inr c \<and>
           map code_desc (c_results c) =
             [(case PkgName v of None \<Rightarrow> ''N/A'' | Some p \<Rightarrow> p) @ '' '' @
              (case InstalledVersion v of None \<Rightarrow> ''N/A'' | Some i \<Rightarrow> i) @ '' '' @ arrow @ '' '' @
              (case FixedVersion v of None \<Rightarrow> ''No fix available'' | Some x \<Rightarrow> x)]"
proof -
  from assms obtain vid sev where "VulnerabilityID v = Some vid" "v_Severity v = Some sev"
    by (cases "VulnerabilityID v"; cases "v_Severity v") (simp_all add: vuln_finding_def)
  with assms have
    "f_package f = Some (case PkgName v of None \<Rightarrow> ''N/A'' | Some p \<Rightarrow> p)"
    "f_installed f = Some (case InstalledVersion v of None \<Rightarrow> ''N/A'' | Some i \<Rightarrow> i)"
    "f_fixed f = Some (case FixedVersion v of None \<Rightarrow> ''No fix available'' | Some x \<Rightarrow> x)"
    by (auto simp: vuln_finding_def)
  then show ?thesis by (simp add: make_control_def)
qed

lemma other_types_raise:
  "misconfig_finding m = Inr f \<Longrightarrow> make_control now f = Inl (KeyError ''package'')"
  "secret_finding s = Inr f \<Longrightarrow> make_control now f = Inl (KeyError ''package'')"
proof -
  show "make_control now f = Inl (KeyError ''package'')" if "misconfig_finding m = Inr f"
  proof -
    from that have "f_package f = None"
      by (cases "ID m"; cases "m_Severity m") (auto simp: misconfig_finding_def)
    then show ?thesis by (simp add: make_control_def)
  qed
  show "make_control now f = Inl (KeyError ''package'')" if "secret_finding s = Inr f"
  proof -
    from that have "f_package f = None"
      by (cases "RuleID s"; cases "s_Severity s") (auto simp: secret_finding_def)
    then show ?thesis by (simp add: make_control_def)
  qed
qed

text \<open>
  Claim C1, amended. The assembler tests no finding against a control of the catalog.
  In a run that returns, every finding is rendered, whatever its severity and its text,
  as one failed result under the output control that carries the finding's own id,
  title, description and severity.
\<close>

theorem C1_every_finding_rendered:
  assumes "export_mitre_saf_hdf template clock image_name findings directory timestamp
             = Inr (filename, out)"
    and "f \<in> set findings"
  shows "\<exists>c \<in> set (profile_controls out).
           c_id c = f_id f \<and> c_title c = f_title f \<and> c_desc c = f_description f \<and>
           severity (c_tags c) = f_severity f \<and>
           (\<exists>r. c_results c = [r] \<and> status r = ''failed'')"
proof -
  from export_eq [OF assms(1)] obtain new where
    n: "controls_loop clock findings 0 [] = Inr new"
    and p: "profile_controls out = profile_controls (start_hdf template) @ new"
    by blast
  from controls_loop_eq [OF n] have
    "list_all2 (\<lambda>f c. \<exists>now. make_control now f = Inr c) findings new" by simp
  from list_all2_mem [OF this assms(2)] obtain c now where
    "c \<in> set new" "make_control now f = Inr c" by blast
  with make_control_fields [of now f c] p show ?thesis by auto
qed

lemma export_cve:
  "export_mitre_saf_hdf (Raises FileNotFoundError) example_clock ''repo/img:1''
     [cve_finding] ''/scan/MITRE'' ''20251201_120000''
     = Inr (''/scan/MITRE/hdf/trivy-hdf-repo_img_1_20251201_120000.json'', cve_output)"
  by (simp add: export_mitre_saf_hdf_def fallback_hdf_def append_controls_def make_control_def
      cve_finding_def cve_output_def example_clock_def replace_char_def impact_table_def)

theorem C1_every_finding_rendered_witness:
  "export_mitre_saf_hdf (Raises FileNotFoundError) example_clock ''repo/img:1''
     [cve_finding] ''/scan/MITRE'' ''20251201_120000''
     = Inr (''/scan/MITRE/hdf/trivy-hdf-repo_img_1_20251201_120000.json'', cve_output) \<and>
   (\<exists>c \<in> set (profile_controls cve_output).
      c_id c = ''CVE-2024-0001'' \<and> c_title c = ''Hardcoded password in image'' \<and>
      c_desc c = [] \<and> severity (c_tags c) = ''CRITICAL'' \<and>
      (\<exists>r. c_results c = [r] \<and> status r = ''failed''))"
proof -
  have m: "cve_finding \<in> set [cve_finding]" by simp
  have f: "f_id cve_finding = ''CVE-2024-0001''"
    "f_title cve_finding = ''Hardcoded password in image''"
    "f_description cve_finding = []" "f_severity cve_finding = ''CRITICAL''"
    by (simp_all add: cve_finding_def)
  from C1_every_finding_rendered [OF export_cve m]
  have "\<exists>c \<in> set (profile_controls cve_output).
      c_id c = ''CVE-2024-0001'' \<and> c_title c = ''Hardcoded password in image'' \<and>
      c_desc c = [] \<and> severity (c_tags c) = ''CRITICAL'' \<and>
      (\<exists>r. c_results c = [r] \<and> status r = ''failed'')"
    unfolding f .
  then show ?thesis by (rule conjI [OF export_cve])
qed

text \<open>
  The claim as it stands fails: the finding \<open>cve_finding\<close>, of severity CRITICAL and with
  the word \<^verbatim>\<open>password\<close> in its title, meets the claimed condition for the catalog
  control IA-5 (threshold HIGH, keyword \<^verbatim>\<open>password\<close>), yet the output of the run holds
  a single control, whose id is the finding's, and none with the id IA-5.
\<close>

theorem C1_matching_counterexample:
  "map_of NIST_MAPPING ''IA-5''
     = Some \<lparr>name = ''Authenticator Management'',
             description = ''Manage system authenticators'',
             trivy_keywords = [''password'', ''credential'', ''secret'', ''key''],
             severity_threshold = ''HIGH''\<rparr> \<and>
   spec_matches cve_finding
     \<lparr>name = ''Authenticator Management'',
      description = ''Manage system authenticators'',
      trivy_keywords = [''password'', ''credential'', ''secret'', ''key''],
      severity_threshold = ''HIGH''\<rparr> \<and>
   export_mitre_saf_hdf (Raises FileNotFoundError) example_clock ''repo/img:1''
     [cve_finding] ''/scan/MITRE'' ''20251201_120000''
     = Inr (''/scan/MITRE/hdf/trivy-hdf-repo_img_1_20251201_120000.json'', cve_output) \<and>
   map c_id (profile_controls cve_output) = [''CVE-2024-0001''] \<and>
   ''IA-5'' \<notin> set (map c_id (profile_controls cve_output))"
proof -
  have a: "map_of NIST_MAPPING ''IA-5''
     = Some \<lparr>name = ''Authenticator Management'',
             description = ''Manage system authenticators'',
             trivy_keywords = [''password'', ''credential'', ''secret'', ''key''],
             severity_threshold = ''HIGH''\<rparr>"
    by (simp add: NIST_MAPPING_def)
  have b: "spec_matches cve_finding
     \<lparr>name = ''Authenticator Management'',
      description = ''Manage system authenticators'',
      trivy_keywords = [''password'', ''credential'', ''secret'', ''key''],
      severity_threshold = ''HIGH''\<rparr>"
    by (simp add: spec_matches_def spec_rank_def SEVERITY_ORDER_def cve_finding_def
        spec_keyword_hit_def spec_lower_def)
  have c: "map c_id (profile_controls cve_output) = [''CVE-2024-0001'']"
    by (simp add: profile_controls_def cve_output_def)
  have d: "''IA-5'' \<notin> set (map c_id (profile_controls cve_output))"
    unfolding c by simp
  show ?thesis by (rule conjI a b c d export_cve)+
qed






text \<open>
  Claim C3. The code description of a finding made from a vulnerability record is the
  package, the installed version, the arrow and the fixed version
  (\<open>vulnerability_code_desc\<close>). For a finding of another type the claim asks for the
  finding's description; the code subscripts every finding with \<^verbatim>\<open>package\<close>, a key that
  the findings made from secrets and misconfigurations do not have, and raises
  \<^verbatim>\<open>KeyError\<close>: here on the finding that the normalizer makes from one secret record.
\<close>

theorem C3_secret_code_desc_raises:
  "extract_findings secret_doc = Inr [aws_finding] \<and>
   f_type aws_finding = ''secret'' \<and>
   f_description aws_finding = ''aws_access_key_id = ****'' \<and>
   export_mitre_saf_hdf (Raises FileNotFoundError) example_clock ''repo/img:1''
     [aws_finding] ''/scan/MITRE'' ''20251201_120000'' = Inl (KeyError ''package'')"
proof -
  have a: "extract_findings secret_doc = Inr [aws_finding]"
    by (simp add: extract_findings_def secret_doc_def secret_finding_def aws_secret_def
        aws_finding_def)
  have b: "f_type aws_finding = ''secret''"
    and c: "f_description aws_finding = ''aws_access_key_id = ****''"
    by (simp_all add: aws_finding_def)
  have p: "f_package aws_finding = None"
    by (simp add: aws_finding_def)
  have d: "export_mitre_saf_hdf (Raises FileNotFoundError) example_clock ''repo/img:1''
     [aws_finding] ''/scan/MITRE'' ''20251201_120000'' = Inl (KeyError ''package'')"
    by (simp add: export_mitre_saf_hdf_def make_control_def p)
  show ?thesis by (rule conjI a b c d)+
qed

text \<open>
  Claim C4. The assembler is to append one control for each finding, in the order of the
  findings, with the finding's id. It does so whenever it returns
  (\<open>export_one_control_per_finding\<close>), and it returns when every finding carries the
  three version fields (\<open>export_returns\<close>). On the two findings that the normalizer
  makes from a document with one vulnerability and one misconfiguration, the loop raises
  \<^verbatim>\<open>KeyError\<close> at the second finding, before any control reaches the profile: nothing
  is appended and no file is written.
\<close>

theorem C4_misconfiguration_aborts_assembly:
  "extract_findings mixed_doc = Inr [cve_finding, ds002_finding] \<and>
   export_mitre_saf_hdf (Raises FileNotFoundError) example_clock ''repo/img:1''
     [cve_finding, ds002_finding] ''/scan/MITRE'' ''20251201_120000''
     = Inl (KeyError ''package'')"
proof -
  have v: "vuln_finding cve_vuln = Inr cve_finding"
    by (simp add: vuln_finding_def cve_vuln_def cve_finding_def)
  have m: "misconfig_finding ds002_misconfig = Inr ds002_finding"
    by (simp add: misconfig_finding_def ds002_misconfig_def ds002_finding_def)
  have a: "extract_findings mixed_doc = Inr [cve_finding, ds002_finding]"
    by (simp add: extract_findings_def mixed_doc_def v m)
  have c: "\<exists>c. make_control (example_clock 0) cve_finding = Inr c"
    by (simp add: make_control_def cve_finding_def)
  have p: "make_control (example_clock (Suc 0)) ds002_finding = Inl (KeyError ''package'')"
    by (simp add: make_control_def ds002_finding_def)
  from c obtain c0 where c0: "make_control (example_clock 0) cve_finding = Inr c0" ..
  have b: "export_mitre_saf_hdf (Raises FileNotFoundError) example_clock ''repo/img:1''
     [cve_finding, ds002_finding] ''/scan/MITRE'' ''20251201_120000''
     = Inl (KeyError ''package'')"
    by (simp add: export_mitre_saf_hdf_def c0 p)
  show ?thesis by (rule conjI a b)+
qed

end
